theory Spec2Isabelle
  imports Main "HOL-Library.Word"
begin

section \<open>Deploy-Kit: a shallow embedding of \<^verbatim>\<open>src/main.py\<close>\<close>

text \<open>
  The program is orchestration glue: it reads a JSON configuration, runs three kinds of
  child process (\<^verbatim>\<open>bash script\<close>, \<^verbatim>\<open>sudo systemctl restart s\<close>, \<^verbatim>\<open>cp -r src dst\<close>) and
  reports what happened.  The embedding keeps the class \<^verbatim>\<open>DeployKit\<close> and the function
  \<^verbatim>\<open>main\<close> as they are written: dictionaries are association lists of Python values,
  every \<^verbatim>\<open>raise\<close> is a value of a sum type, every \<^verbatim>\<open>try/except\<close> is a case analysis on
  it, and the effects (calls of \<^verbatim>\<open>subprocess.run\<close>, log records, printed lines) are
  threaded through an explicit \<open>world\<close>.  What the operating system answers is an
  explicit parameter, the \<open>env\<close>.
\<close>

subsection \<open>Python values\<close>

text \<open>
  What \<^verbatim>\<open>json.load\<close> can return, and what the actions build from it.  A Python \<^verbatim>\<open>float\<close>
  is kept as its IEEE-754 binary64 bit pattern; a \<^verbatim>\<open>dict\<close> is the list of its items in
  insertion order.  A \<open>char\<close> stands for one character of a Python \<^verbatim>\<open>str\<close>.
\<close>

datatype pyval =
    PNone
  | PBool bool
  | PInt int
  | PFloat "64 word"
  | PStr string
  | PList "pyval list"
  | PDict "(string \<times> pyval) list"

text \<open>Python's truth value testing (\<^verbatim>\<open>not x\<close>, \<^verbatim>\<open>if x\<close>); \<open>\<plusminus>0.0\<close> is false.\<close>

fun truthy :: "pyval \<Rightarrow> bool" where
  "truthy PNone = False"
| "truthy (PBool b) = b"
| "truthy (PInt n) = (n \<noteq> 0)"
| "truthy (PFloat w) = (take_bit 63 w \<noteq> 0)"
| "truthy (PStr s) = (s \<noteq> [])"
| "truthy (PList xs) = (xs \<noteq> [])"
| "truthy (PDict kvs) = (kvs \<noteq> [])"

text \<open>\<^verbatim>\<open>d.get(key, default)\<close> on a dict.\<close>

definition dict_get :: "(string \<times> pyval) list \<Rightarrow> string \<Rightarrow> pyval \<Rightarrow> pyval" where
  "dict_get kvs k d = (case map_of kvs k of Some v \<Rightarrow> v | None \<Rightarrow> d)"

text \<open>The name Python prints for the type of a value, used in its error messages.\<close>

fun type_name :: "pyval \<Rightarrow> string" where
  "type_name PNone = ''NoneType''"
| "type_name (PBool b) = ''bool''"
| "type_name (PInt n) = ''int''"
| "type_name (PFloat w) = ''float''"
| "type_name (PStr s) = ''str''"
| "type_name (PList xs) = ''list''"
| "type_name (PDict kvs) = ''dict''"

definition quoted :: "string \<Rightarrow> string" where
  "quoted s = [CHR 0x27] @ s @ [CHR 0x27]"

subsection \<open>Exceptions\<close>

text \<open>
  \<^verbatim>\<open>subprocess.CalledProcessError\<close> carries the return code, the command, and the
  captured output; every other subclass of \<^verbatim>\<open>Exception\<close> the program can meet is its
  class name and its message (\<^verbatim>\<open>str(e)\<close>).  \<^verbatim>\<open>KeyboardInterrupt\<close> and the other
  asynchronous \<^verbatim>\<open>BaseException\<close>s are not modelled.
\<close>

datatype pyexc =
    CalledProcessError int "pyval list" string string
  | PyException string string

subsection \<open>Time\<close>

record datetime =
  year :: nat
  month :: nat
  day :: nat
  hour :: nat
  minute :: nat
  second :: nat
  microsecond :: nat

definition digit_char :: "nat \<Rightarrow> char" where
  "digit_char d = char_of (48 + d)"

function str_nat :: "nat \<Rightarrow> string" where
  "str_nat n = (if n < 10 then [digit_char n] else str_nat (n div 10) @ [digit_char (n mod 10)])"
  by pat_completeness auto
termination
  by (relation "measure id") auto

declare str_nat.simps [simp del]

definition str_int :: "int \<Rightarrow> string" where
  "str_int i = (if i < 0 then CHR ''-'' # str_nat (nat (- i)) else str_nat (nat i))"

text \<open>A decimal number padded with zeros on the left to at least \<open>w\<close> digits.\<close>

definition zpad :: "nat \<Rightarrow> nat \<Rightarrow> string" where
  "zpad w n = replicate (w - length (str_nat n)) CHR ''0'' @ str_nat n"

text \<open>
  The directives of \<^verbatim>\<open>strftime\<close> that the program uses, as documented: \<^verbatim>\<open>%Y\<close> the year
  with century (four digits for the years 1000 to 9999 that a running clock gives),
  \<^verbatim>\<open>%m %d %H %M %S\<close> two digits each.  Any other directive is left as it is written.
\<close>

definition directive :: "char \<Rightarrow> datetime \<Rightarrow> string" where
  "directive c t =
     (if c = CHR ''Y'' then zpad 4 (year t)
      else if c = CHR ''m'' then zpad 2 (month t)
      else if c = CHR ''d'' then zpad 2 (day t)
      else if c = CHR ''H'' then zpad 2 (hour t)
      else if c = CHR ''M'' then zpad 2 (minute t)
      else if c = CHR ''S'' then zpad 2 (second t)
      else [CHR ''%'', c])"

fun strftime :: "string \<Rightarrow> datetime \<Rightarrow> string" where
  "strftime (c # d # fmt) t =
     (if c = CHR ''%'' then directive d t @ strftime fmt t else c # strftime (d # fmt) t)"
| "strftime [c] t = [c]"
| "strftime [] t = []"

text \<open>\<^verbatim>\<open>datetime.isoformat()\<close>: the microseconds are printed only when they are not zero.\<close>

definition isoformat :: "datetime \<Rightarrow> string" where
  "isoformat t =
     zpad 4 (year t) @ ''-'' @ zpad 2 (month t) @ ''-'' @ zpad 2 (day t) @ ''T'' @
     zpad 2 (hour t) @ '':'' @ zpad 2 (minute t) @ '':'' @ zpad 2 (second t) @
     (if microsecond t = 0 then [] else ''.'' @ zpad 6 (microsecond t))"

subsection \<open>The world outside the program\<close>

text \<open>
  \<open>calls\<close> is the list of the argument vectors \<^verbatim>\<open>subprocess.run\<close> has been called with,
  oldest first: the only way this program changes anything outside itself.  \<open>out\<close> is
  what it has written: log records (calls of the logger, whatever level is configured)
  and printed lines; \<open>PrintJson v\<close> is the text of \<^verbatim>\<open>json.dumps(v, indent=2)\<close>, printed.
\<close>

datatype severity = Info | Warning | Error

datatype out_event =
    Log severity string
  | Print string
  | PrintJson pyval

record world =
  calls :: "pyval list list"
  out :: "out_event list"

text \<open>
  What a child process did.
  \<^item> \<open>Exited rc so se\<close>: it ran and exited with the return code \<open>rc\<close>, and what it wrote
    to its standard output and standard error decoded as the texts \<open>so\<close> and \<open>se\<close>.
  \<^item> \<open>ExitedUndecodable rc m\<close>: it ran and exited with the return code \<open>rc\<close>, but what it
    wrote is not text in the encoding of the locale; with \<^verbatim>\<open>text=True\<close> the call raises
    \<^verbatim>\<open>UnicodeDecodeError\<close> with the message \<open>m\<close> while it collects the output, before it
    looks at the return code.
  \<^item> \<open>LaunchError m\<close>: no child ran to its end (the program is missing, an argument has
    a null character, ...); the call raises an exception with the message \<open>m\<close>.
\<close>

datatype proc_outcome =
    Exited int string string
  | ExitedUndecodable int string
  | LaunchError string

text \<open>
  The answers of the operating system and of the Python library.  Each may depend on
  the child processes run so far (a deployment script may create or delete files).
  \<^item> \<open>project_root\<close>: \<^verbatim>\<open>Path(__file__).parent.parent\<close>;
  \<^item> \<open>path_join\<close>: the operator \<^verbatim>\<open>/\<close> of \<^verbatim>\<open>pathlib\<close>;
  \<^item> \<open>path_exists\<close>: \<^verbatim>\<open>Path.exists()\<close>, \<open>Inl\<close> the message when it raises;
  \<^item> \<open>read_json\<close>: \<^verbatim>\<open>open\<close> and \<^verbatim>\<open>json.load\<close>, \<open>Inl\<close> the message when either raises;
  \<^item> \<open>run_proc\<close>: the child process of \<^verbatim>\<open>subprocess.run\<close> on an argument vector of strings;
  \<^item> \<open>clock\<close>: \<^verbatim>\<open>datetime.now()\<close>;
  \<^item> \<open>str_other\<close>: \<^verbatim>\<open>str(v)\<close> for a value that is not a string;
  \<^item> \<open>cpe_str\<close>: \<^verbatim>\<open>str(e)\<close> for a \<^verbatim>\<open>CalledProcessError\<close> of a command and a return code;
  \<^item> \<open>json_dumps_error\<close>: \<open>None\<close> when \<^verbatim>\<open>json.dumps(v, indent=2)\<close> returns, and the message
    of the exception when it raises (\<^verbatim>\<open>RecursionError\<close>, for a value that \<^verbatim>\<open>json.load\<close>
    accepted and that is nested deeper than the encoder can follow).
\<close>

record env =
  project_root :: string
  path_join :: "string \<Rightarrow> string \<Rightarrow> string"
  path_exists :: "pyval list list \<Rightarrow> string \<Rightarrow> string + bool"
  read_json :: "pyval list list \<Rightarrow> string \<Rightarrow> string + pyval"
  run_proc :: "pyval list list \<Rightarrow> string list \<Rightarrow> proc_outcome"
  clock :: "pyval list list \<Rightarrow> datetime"
  str_other :: "pyval \<Rightarrow> string"
  cpe_str :: "pyval list \<Rightarrow> int \<Rightarrow> string"
  json_dumps_error :: "pyval \<Rightarrow> string option"

text \<open>A value inside an f-string: \<^verbatim>\<open>f"{v}"\<close>.\<close>

definition fmt :: "env \<Rightarrow> pyval \<Rightarrow> string" where
  "fmt E v = (case v of PStr s \<Rightarrow> s | _ \<Rightarrow> str_other E v)"

text \<open>\<^verbatim>\<open>str(e)\<close> for a caught exception.\<close>

definition exc_str :: "env \<Rightarrow> pyexc \<Rightarrow> string" where
  "exc_str E e =
     (case e of CalledProcessError rc cmd so se \<Rightarrow> cpe_str E cmd rc | PyException c m \<Rightarrow> m)"

definition logger :: "severity \<Rightarrow> string \<Rightarrow> world \<Rightarrow> world" where
  "logger lvl msg st = st\<lparr>out := out st @ [Log lvl msg]\<rparr>"

definition print :: "string \<Rightarrow> world \<Rightarrow> world" where
  "print msg st = st\<lparr>out := out st @ [Print msg]\<rparr>"

fun is_str :: "pyval \<Rightarrow> bool" where
  "is_str (PStr s) = True"
| "is_str v = False"

fun the_str :: "pyval \<Rightarrow> string" where
  "the_str (PStr s) = s"
| "the_str v = []"

text \<open>
  \<^verbatim>\<open>subprocess.run(args, check=True, capture_output=True, text=True)\<close>.  The call is
  recorded.  An argument that is not a string makes it raise \<^verbatim>\<open>TypeError\<close> before any
  process exists; otherwise the child runs, its output is decoded (which may raise), and
  with \<^verbatim>\<open>check=True\<close> a return code other than 0 raises \<^verbatim>\<open>CalledProcessError\<close>.  The
  value returned is the pair of the captured standard output and standard error.
\<close>

definition subprocess_run ::
  "env \<Rightarrow> pyval list \<Rightarrow> world \<Rightarrow> (pyexc + string \<times> string) \<times> world" where
  "subprocess_run E args st =
     (let st' = st\<lparr>calls := calls st @ [args]\<rparr> in
      if list_all is_str args then
        (case run_proc E (calls st) (map the_str args) of
           Exited rc so se \<Rightarrow>
             if rc = 0 then (Inr (so, se), st')
             else (Inl (CalledProcessError rc args so se), st')
         | ExitedUndecodable rc m \<Rightarrow> (Inl (PyException ''UnicodeDecodeError'' m), st')
         | LaunchError m \<Rightarrow> (Inl (PyException ''OSError'' m), st'))
      else
        (Inl (PyException ''TypeError''
               (''expected str, bytes or os.PathLike object, not '' @
                type_name (hd (filter (\<lambda>a. \<not> is_str a) args)))), st'))"

subsection \<open>The class \<^verbatim>\<open>DeployKit\<close>\<close>

text \<open>
  An object of the class: its configuration and the level its logger was set to.
  The constructor raises unless \<^verbatim>\<open>self.config\<close> is a dict (see \<open>DeployKit_init\<close>), so
  the configuration of an object that exists is the items of a dict.
\<close>

record deploy_kit =
  config :: "(string \<times> pyval) list"
  log_level :: nat

definition config_path :: "env \<Rightarrow> string" where
  "config_path E = path_join E (path_join E (project_root E) ''config'') ''config.json''"

definition get_default_config :: pyval where
  "get_default_config =
     PDict [(''environment'', PStr ''development''),
            (''logLevel'', PStr ''INFO''),
            (''deploymentPath'', PStr ''/var/www/html''),
            (''backupEnabled'', PBool True),
            (''services'', PList [])]"

text \<open>\<^verbatim>\<open>load_config\<close>: the whole body is inside \<^verbatim>\<open>try ... except Exception\<close>.\<close>

definition load_config :: "env \<Rightarrow> world \<Rightarrow> pyval \<times> world" where
  "load_config E st =
     (case path_exists E (calls st) (config_path E) of
        Inr True \<Rightarrow>
          (case read_json E (calls st) (config_path E) of
             Inr v \<Rightarrow> (v, st)
           | Inl m \<Rightarrow> (get_default_config, print (''Failed to load config: '' @ m) st))
      | Inr False \<Rightarrow>
          (get_default_config,
           print (''Config file not found at '' @ config_path E @ '', using defaults'') st)
      | Inl m \<Rightarrow> (get_default_config, print (''Failed to load config: '' @ m) st))"

text \<open>
  \<^verbatim>\<open>str.upper()\<close>: the letters a to z are raised; no other 8-bit character becomes an
  ASCII letter.
\<close>

definition upper_char :: "char \<Rightarrow> char" where
  "upper_char c =
     (let n = (of_char c :: nat) in if 97 \<le> n \<and> n \<le> 122 then char_of (n - 32) else c)"

definition upper :: "string \<Rightarrow> string" where
  "upper s = map upper_char s"

text \<open>
  The attributes of the module \<^verbatim>\<open>logging\<close> whose names are upper case and that
  \<^verbatim>\<open>logging.basicConfig(level=...)\<close> accepts.
\<close>

definition logging_levels :: "(string \<times> nat) list" where
  "logging_levels =
     [(''CRITICAL'', 50), (''FATAL'', 50), (''ERROR'', 40), (''WARNING'', 30),
      (''WARN'', 30), (''INFO'', 20), (''DEBUG'', 10), (''NOTSET'', 0)]"

text \<open>
  \<^verbatim>\<open>setup_logging\<close>: \<^verbatim>\<open>getattr(logging, self.config.get('logLevel', 'INFO').upper())\<close>
  raises when the value has no method \<^verbatim>\<open>upper\<close> or the module has no such attribute.
  For the two upper-case attributes that are not levels (\<^verbatim>\<open>BASIC_FORMAT\<close>, \<^verbatim>\<open>_STYLES\<close>)
  it is \<^verbatim>\<open>basicConfig\<close> that raises; the class and message of that exception are not
  told apart here.  Nothing catches either.
\<close>

definition setup_logging :: "(string \<times> pyval) list \<Rightarrow> pyexc + nat" where
  "setup_logging cfg =
     (case dict_get cfg ''logLevel'' (PStr ''INFO'') of
        PStr s \<Rightarrow>
          (case map_of logging_levels (upper s) of
             Some lvl \<Rightarrow> Inr lvl
           | None \<Rightarrow>
               Inl (PyException ''AttributeError''
                     (''module '' @ quoted ''logging'' @ '' has no attribute '' @
                      quoted (upper s))))
      | v \<Rightarrow>
          Inl (PyException ''AttributeError''
                (quoted (type_name v) @ '' object has no attribute '' @ quoted ''upper'')))"

text \<open>
  \<^verbatim>\<open>__init__\<close>: load the configuration, then set up logging.  When the loaded JSON value
  is not an object, \<^verbatim>\<open>self.config.get\<close> in \<^verbatim>\<open>setup_logging\<close> raises \<^verbatim>\<open>AttributeError\<close>.
\<close>

definition DeployKit_init :: "env \<Rightarrow> world \<Rightarrow> (pyexc + deploy_kit) \<times> world" where
  "DeployKit_init E st =
     (case load_config E st of
        (PDict kvs, st1) \<Rightarrow>
          (case setup_logging kvs of
             Inl e \<Rightarrow> (Inl e, st1)
           | Inr lvl \<Rightarrow> (Inr \<lparr>config = kvs, log_level = lvl\<rparr>, st1))
      | (v, st1) \<Rightarrow>
          (Inl (PyException ''AttributeError''
                 (quoted (type_name v) @ '' object has no attribute '' @ quoted ''get'')),
           st1))"

subsection \<open>deploy\<close>

definition script_path :: "env \<Rightarrow> string \<Rightarrow> string" where
  "script_path E script_name =
     path_join E (path_join E (project_root E) ''scripts'') (script_name @ ''.sh'')"

text \<open>The \<^verbatim>\<open>try\<close> block of \<^verbatim>\<open>execute_deployment\<close>: \<open>Inl\<close> is the exception it raises.\<close>

definition deploy_try :: "env \<Rightarrow> string \<Rightarrow> world \<Rightarrow> (pyexc + pyval) \<times> world" where
  "deploy_try E script_name st =
     (case path_exists E (calls st) (script_path E script_name) of
        Inl m \<Rightarrow> (Inl (PyException ''OSError'' m), st)
      | Inr False \<Rightarrow>
          (Inl (PyException ''FileNotFoundError''
                 (''Deployment script not found: '' @ script_path E script_name)), st)
      | Inr True \<Rightarrow>
          (case subprocess_run E [PStr ''bash'', PStr (script_path E script_name)]
                  (logger Info (''Executing script: '' @ script_path E script_name) st) of
             (Inl e, st2) \<Rightarrow> (Inl e, st2)
           | (Inr (so, se), st2) \<Rightarrow>
               (Inr (PDict [(''success'', PBool True), (''output'', PStr so),
                            (''stderr'', PStr se)]),
                logger Info (''Output: '' @ so)
                  (logger Info ''Deployment completed successfully'' st2))))"

text \<open>
  \<^verbatim>\<open>execute_deployment\<close>: the first log line, the \<^verbatim>\<open>try\<close> block, and the two handlers
  \<^verbatim>\<open>except subprocess.CalledProcessError\<close> and \<^verbatim>\<open>except Exception\<close>, in that order.
\<close>

definition execute_deployment :: "env \<Rightarrow> deploy_kit \<Rightarrow> string \<Rightarrow> world \<Rightarrow> pyval \<times> world" where
  "execute_deployment E self script_name st =
     (case deploy_try E script_name (logger Info (''Starting deployment: '' @ script_name) st) of
        (Inr r, st1) \<Rightarrow> (r, st1)
      | (Inl (CalledProcessError rc cmd so se), st1) \<Rightarrow>
          (PDict [(''success'', PBool False), (''error'', PStr se), (''exit_code'', PInt rc)],
           logger Error (''Deployment failed with exit code '' @ str_int rc @ '': '' @ se) st1)
      | (Inl (PyException c m), st1) \<Rightarrow>
          (PDict [(''success'', PBool False), (''error'', PStr (exc_str E (PyException c m)))],
           logger Error (''Deployment failed: '' @ exc_str E (PyException c m)) st1))"

subsection \<open>status\<close>

definition get_status :: "env \<Rightarrow> deploy_kit \<Rightarrow> world \<Rightarrow> pyval \<times> world" where
  "get_status E self st =
     (PDict [(''environment'', dict_get (config self) ''environment'' PNone),
             (''timestamp'', PStr (isoformat (clock E (calls st)))),
             (''config'', PDict (config self)),
             (''services'', dict_get (config self) ''services'' (PList []))],
      st)"

subsection \<open>restart\<close>

text \<open>
  What \<^verbatim>\<open>for service in services\<close> iterates over: the elements of a list, the
  characters of a string, the keys of a dict; any other value is not iterable.
\<close>

fun py_iter :: "pyval \<Rightarrow> pyexc + pyval list" where
  "py_iter (PList xs) = Inr xs"
| "py_iter (PStr s) = Inr (map (\<lambda>c. PStr [c]) s)"
| "py_iter (PDict kvs) = Inr (map (\<lambda>kv. PStr (fst kv)) kvs)"
| "py_iter v = Inl (PyException ''TypeError'' (quoted (type_name v) @ '' object is not iterable''))"

definition restart_argv :: "pyval \<Rightarrow> pyval list" where
  "restart_argv service = [PStr ''sudo'', PStr ''systemctl'', PStr ''restart'', service]"

text \<open>The body of the loop: a \<^verbatim>\<open>try\<close> block and its two handlers, which only log.\<close>

definition restart_one :: "env \<Rightarrow> pyval \<Rightarrow> world \<Rightarrow> world" where
  "restart_one E service st =
     (case subprocess_run E (restart_argv service)
             (logger Info (''Restarting service: '' @ fmt E service) st) of
        (Inr r, st1) \<Rightarrow>
          logger Info (''Service '' @ fmt E service @ '' restarted successfully'') st1
      | (Inl (CalledProcessError rc cmd so se), st1) \<Rightarrow>
          logger Error (''Failed to restart service '' @ fmt E service @ '': '' @ se) st1
      | (Inl (PyException c m), st1) \<Rightarrow>
          logger Error (''Failed to restart service '' @ fmt E service @ '': '' @
                        exc_str E (PyException c m)) st1)"

fun restart_loop :: "env \<Rightarrow> pyval list \<Rightarrow> world \<Rightarrow> world" where
  "restart_loop E [] st = st"
| "restart_loop E (service # rest) st = restart_loop E rest (restart_one E service st)"

text \<open>
  \<^verbatim>\<open>restart_services\<close> returns \<^verbatim>\<open>None\<close>.  The \<^verbatim>\<open>for\<close> statement itself is outside every
  \<^verbatim>\<open>try\<close>: a value that is true and not iterable raises out of the method.
\<close>

definition restart_services :: "env \<Rightarrow> deploy_kit \<Rightarrow> world \<Rightarrow> (pyexc + pyval) \<times> world" where
  "restart_services E self st =
     (let st1 = logger Info ''Restarting services...'' st;
          services = dict_get (config self) ''services'' (PList [])
      in if \<not> truthy services then
           (Inr PNone, logger Warning ''No services configured for restart'' st1)
         else
           (case py_iter services of
              Inl e \<Rightarrow> (Inl e, st1)
            | Inr xs \<Rightarrow> (Inr PNone, restart_loop E xs st1)))"

subsection \<open>backup\<close>

text \<open>
  Lines 178 to 180: \<^verbatim>\<open>if not backup_path\<close> holds for \<^verbatim>\<open>None\<close> and for the empty string;
  then the destination is derived from the deployment path and the clock.
\<close>

definition backup_destination :: "env \<Rightarrow> pyval \<Rightarrow> string option \<Rightarrow> world \<Rightarrow> string" where
  "backup_destination E deployment_path backup_path st =
     (case backup_path of
        None \<Rightarrow>
          fmt E deployment_path @ ''_backup_'' @ strftime ''%Y%m%d_%H%M%S'' (clock E (calls st))
      | Some p \<Rightarrow>
          if p = [] then
            fmt E deployment_path @ ''_backup_'' @ strftime ''%Y%m%d_%H%M%S'' (clock E (calls st))
          else p)"

definition backup_deployment ::
  "env \<Rightarrow> deploy_kit \<Rightarrow> string option \<Rightarrow> world \<Rightarrow> pyval \<times> world" where
  "backup_deployment E self backup_path st =
     (if \<not> truthy (dict_get (config self) ''backupEnabled'' (PBool True)) then
        (PDict [(''success'', PBool False), (''reason'', PStr ''Backup disabled'')],
         logger Info ''Backup is disabled in configuration'' st)
      else
        (let deployment_path = dict_get (config self) ''deploymentPath'' (PStr ''/var/www/html'');
             dest = backup_destination E deployment_path backup_path st
         in case subprocess_run E [PStr ''cp'', PStr ''-r'', deployment_path, PStr dest]
                   (logger Info (''Creating backup: '' @ fmt E deployment_path @ '' -> '' @ dest)
                      st) of
              (Inr r, st1) \<Rightarrow>
                (PDict [(''success'', PBool True), (''backup_path'', PStr dest)],
                 logger Info (''Backup created successfully: '' @ dest) st1)
            | (Inl e, st1) \<Rightarrow>
                (PDict [(''success'', PBool False), (''error'', PStr (exc_str E e))],
                 logger Error (''Backup failed: '' @ exc_str E e) st1)))"

subsection \<open>The command line\<close>

text \<open>
  How the process ends: \<^verbatim>\<open>main\<close> returns (exit status 0), \<^verbatim>\<open>sys.exit(n)\<close> was called, or
  an exception nobody caught reached the top (a traceback, exit status 1).
\<close>

datatype outcome = Returned | SystemExit int | Uncaught pyexc

fun exit_status :: "outcome \<Rightarrow> int" where
  "exit_status Returned = 0"
| "exit_status (SystemExit n) = n"
| "exit_status (Uncaught e) = 1"

text \<open>\<^verbatim>\<open>result['success']\<close>, the subscription of a value with a string.\<close>

fun getitem :: "pyval \<Rightarrow> string \<Rightarrow> pyexc + pyval" where
  "getitem (PDict kvs) k =
     (case map_of kvs k of Some v \<Rightarrow> Inr v | None \<Rightarrow> Inl (PyException ''KeyError'' (quoted k)))"
| "getitem (PStr s) k = Inl (PyException ''TypeError'' ''string indices must be integers'')"
| "getitem (PList xs) k = Inl (PyException ''TypeError'' ''list indices must be integers or slices'')"
| "getitem v k =
     Inl (PyException ''TypeError'' (quoted (type_name v) @ '' object is not subscriptable''))"

text \<open>\<^verbatim>\<open>if not result['success']: sys.exit(1)\<close>, the end of the deploy and backup branches.\<close>

definition exit_unless_success :: "pyval \<Rightarrow> world \<Rightarrow> outcome \<times> world" where
  "exit_unless_success result st =
     (case getitem result ''success'' of
        Inl e \<Rightarrow> (Uncaught e, st)
      | Inr v \<Rightarrow> if \<not> truthy v then (SystemExit 1, st) else (Returned, st))"

text \<open>The usage text that \<^verbatim>\<open>main\<close> prints, line by line.\<close>

definition usage :: string where
  "usage =
     concat (map (\<lambda>l. l @ [CHR 0x0A])
       [[],
        ''Deploy-Kit Usage:'',
        ''  python main.py deploy [script-name]  - Execute deployment script'',
        ''  python main.py status                - Show deployment status'',
        ''  python main.py restart               - Restart configured services'',
        ''  python main.py backup [path]         - Create deployment backup'',
        [],
        ''Examples:'',
        ''  python main.py deploy                # Run default deploy.sh'',
        ''  python main.py deploy custom         # Run custom.sh'',
        ''  python main.py status                # Show current status'',
        ''  python main.py restart               # Restart all services'',
        ''  python main.py backup                # Create timestamped backup'']) @
     ''        ''"

text \<open>
  \<^verbatim>\<open>main\<close>, with \<^verbatim>\<open>sys.argv\<close> as a parameter.  Nothing in it is inside a \<^verbatim>\<open>try\<close>: the
  constructor, \<^verbatim>\<open>restart_services\<close> and \<^verbatim>\<open>json.dumps\<close> in the status branch can each raise
  to the top.
\<close>

definition main :: "env \<Rightarrow> string list \<Rightarrow> world \<Rightarrow> outcome \<times> world" where
  "main E argv st =
     (case DeployKit_init E st of
        (Inl e, st1) \<Rightarrow> (Uncaught e, st1)
      | (Inr deploy_kit, st1) \<Rightarrow>
          if length argv < 2 then (Returned, print usage st1)
          else if argv ! 1 = ''deploy'' then
            (case execute_deployment E deploy_kit
                    (if length argv > 2 then argv ! 2 else ''deploy'') st1 of
               (result, st2) \<Rightarrow> exit_unless_success result st2)
          else if argv ! 1 = ''status'' then
            (case get_status E deploy_kit st1 of
               (status, st2) \<Rightarrow>
                 (case json_dumps_error E status of
                    Some m \<Rightarrow> (Uncaught (PyException ''RecursionError'' m), st2)
                  | None \<Rightarrow> (Returned, st2\<lparr>out := out st2 @ [PrintJson status]\<rparr>)))
          else if argv ! 1 = ''restart'' then
            (case restart_services E deploy_kit st1 of
               (Inl e, st2) \<Rightarrow> (Uncaught e, st2)
             | (Inr r, st2) \<Rightarrow> (Returned, st2))
          else if argv ! 1 = ''backup'' then
            (case backup_deployment E deploy_kit
                    (if length argv > 2 then Some (argv ! 2) else None) st1 of
               (result, st2) \<Rightarrow> exit_unless_success result st2)
          else (SystemExit 1, print (''Unknown command: '' @ argv ! 1) st1))"

subsection \<open>The result record of the specification\<close>

text \<open>
  The specification's \<open>ActionResult\<close> is a record \<open>{success: bool, output, error,
  exitCode}\<close> with the last three optional.  In the program a result is a dict; it is
  such a record when it has a key \<^verbatim>\<open>success\<close> holding a boolean.
\<close>

fun is_ActionResult :: "pyval \<Rightarrow> bool" where
  "is_ActionResult (PDict kvs) =
     (case map_of kvs ''success'' of Some (PBool b) \<Rightarrow> True | _ \<Rightarrow> False)"
| "is_ActionResult v = False"

text \<open>\<^verbatim>\<open>key in d\<close>.\<close>

fun has_key :: "pyval \<Rightarrow> string \<Rightarrow> bool" where
  "has_key (PDict kvs) k = (map_of kvs k \<noteq> None)"
| "has_key v k = False"

subsection \<open>A concrete installation\<close>

text \<open>
  An installation under \<^verbatim>\<open>/opt/deploy-kit\<close> with a configuration file, the script
  \<^verbatim>\<open>deploy.sh\<close> that succeeds and the script \<^verbatim>\<open>migrate.sh\<close> that exits with 2, on a machine
  where the service \<^verbatim>\<open>nginx\<close> cannot be restarted and everything else can, and where the
  JSON encoder gives up on a value nested 1000 deep or more.
\<close>

text \<open>How deep the lists and dicts of a value are nested.\<close>

fun depth :: "pyval \<Rightarrow> nat" where
  "depth (PList xs) = Suc (fold max (map depth xs) 0)"
| "depth (PDict kvs) = Suc (fold max (map (\<lambda>kv. depth (snd kv)) kvs) 0)"
| "depth v = 0"

text \<open>The JSON text \<^verbatim>\<open>[[...[]...]]\<close> with \<open>n + 1\<close> pairs of brackets, loaded.\<close>

fun nested :: "nat \<Rightarrow> pyval" where
  "nested 0 = PList []"
| "nested (Suc n) = PList [nested n]"

definition demo_config :: "(string \<times> pyval) list" where
  "demo_config =
     [(''environment'', PStr ''production''),
      (''logLevel'', PStr ''debug''),
      (''deploymentPath'', PStr ''/srv/app''),
      (''backupEnabled'', PBool True),
      (''services'', PList [PStr ''nginx'', PStr ''app''])]"

definition demo_run :: "string list \<Rightarrow> proc_outcome" where
  "demo_run argv =
     (if argv = [''bash'', ''/opt/deploy-kit/scripts/deploy.sh''] then Exited 0 ''deployed'' []
      else if argv = [''bash'', ''/opt/deploy-kit/scripts/migrate.sh''] then
        Exited 2 [] ''migration failed''
      else if argv = [''sudo'', ''systemctl'', ''restart'', ''nginx''] then
        Exited 5 [] ''Unit nginx.service not found.''
      else if hd argv = ''bash'' then LaunchError ''No such file or directory: bash''
      else Exited 0 [] [])"

definition demo_env :: env where
  "demo_env =
     \<lparr>project_root = ''/opt/deploy-kit'',
      path_join = (\<lambda>a b. a @ ''/'' @ b),
      path_exists = (\<lambda>h p. Inr (p = ''/opt/deploy-kit/config/config.json'' \<or>
                                p = ''/opt/deploy-kit/scripts/deploy.sh'' \<or>
                                p = ''/opt/deploy-kit/scripts/migrate.sh'' \<or>
                                p = ''/opt/deploy-kit/scripts/nobash.sh'')),
      read_json = (\<lambda>h p. Inr (PDict demo_config)),
      run_proc = (\<lambda>h argv. demo_run argv),
      clock = (\<lambda>h. \<lparr>year = 2024, month = 3, day = 9, hour = 7, minute = 5, second = 42,
                     microsecond = 0\<rparr>),
      str_other = (\<lambda>v. ''?''),
      cpe_str = (\<lambda>cmd rc. ''Command returned non-zero exit status '' @ str_int rc),
      json_dumps_error =
        (\<lambda>v. if 1000 \<le> depth v then Some ''maximum recursion depth exceeded'' else None)\<rparr>"

definition demo_kit :: deploy_kit where
  "demo_kit = \<lparr>config = demo_config, log_level = 10\<rparr>"

definition world0 :: world where
  "world0 = \<lparr>calls = [], out = []\<rparr>"

text \<open>The same installation with other configuration files.\<close>

definition env_with_config :: "pyval \<Rightarrow> env" where
  "env_with_config v = demo_env\<lparr>read_json := (\<lambda>h p. Inr v)\<rparr>"

text \<open>
  The installation with scripts that write the byte \<^verbatim>\<open>0xE9\<close>, which is not UTF-8 text:
  \<^verbatim>\<open>deploy.sh\<close> does so and exits with 0, \<^verbatim>\<open>migrate.sh\<close> does so and exits with 2.
\<close>

definition codec_message :: string where
  "codec_message =
     quoted ''utf-8'' @ '' codec can't decode byte 0xe9 in position 0: unexpected end of data''"

definition env_binary_output :: env where
  "env_binary_output =
     demo_env\<lparr>run_proc :=
       (\<lambda>h argv.
          if argv = [''bash'', ''/opt/deploy-kit/scripts/deploy.sh''] then
            ExitedUndecodable 0 codec_message
          else if argv = [''bash'', ''/opt/deploy-kit/scripts/migrate.sh''] then
            ExitedUndecodable 2 codec_message
          else Exited 0 [] [])\<rparr>"

definition env_no_config :: env where
  "env_no_config = demo_env\<lparr>path_exists := (\<lambda>h p. Inr False)\<rparr>"

definition env_unreadable_config :: env where
  "env_unreadable_config = demo_env\<lparr>path_exists := (\<lambda>h p. Inl ''Permission denied'')\<rparr>"

definition env_bad_json :: env where
  "env_bad_json = demo_env\<lparr>read_json := (\<lambda>h p. Inl ''Expecting value: line 1 column 1'')\<rparr>"

definition kit_no_backup :: deploy_kit where
  "kit_no_backup =
     \<lparr>config = [(''deploymentPath'', PStr ''/srv/app''), (''backupEnabled'', PBool False)],
      log_level = 20\<rparr>"

section \<open>Properties\<close>

subsection \<open>What each operation adds to the record of child processes\<close>

lemma calls_logger [simp]: "calls (logger lvl msg st) = calls st"
  by (simp add: logger_def)

lemma calls_print [simp]: "calls (print msg st) = calls st"
  by (simp add: print_def)

lemma calls_subprocess_run [simp]:
  "calls (snd (subprocess_run E args st)) = calls st @ [args]"
  by (simp add: subprocess_run_def Let_def split: proc_outcome.splits)

lemma calls_load_config [simp]: "calls (snd (load_config E st)) = calls st"
  by (simp add: load_config_def split: sum.splits bool.splits)

lemma calls_DeployKit_init [simp]: "calls (snd (DeployKit_init E st)) = calls st"
proof -
  obtain v st1 where lc: "load_config E st = (v, st1)"
    by (cases "load_config E st")
  then have "calls st1 = calls st"
    using calls_load_config [of E st] by simp
  with lc show ?thesis
    by (simp add: DeployKit_init_def split: pyval.splits sum.splits)
qed

subsection \<open>Configuration loading\<close>

text \<open>
  Claim C5.  When the configuration file is missing, or cannot be loaded (\<^verbatim>\<open>exists\<close>,
  \<^verbatim>\<open>open\<close> or \<^verbatim>\<open>json.load\<close> raises), \<^verbatim>\<open>load_config\<close> returns exactly the default
  configuration: environment \<^verbatim>\<open>development\<close>, logLevel \<^verbatim>\<open>INFO\<close>, deploymentPath
  \<^verbatim>\<open>/var/www/html\<close>, backupEnabled true, services the empty list.
\<close>

theorem load_config_defaults:
  "(path_exists E (calls st) (config_path E) = Inr False \<longrightarrow>
      fst (load_config E st) =
        PDict [(''environment'', PStr ''development''), (''logLevel'', PStr ''INFO''),
               (''deploymentPath'', PStr ''/var/www/html''), (''backupEnabled'', PBool True),
               (''services'', PList [])]) \<and>
   (path_exists E (calls st) (config_path E) = Inl m \<longrightarrow>
      fst (load_config E st) =
        PDict [(''environment'', PStr ''development''), (''logLevel'', PStr ''INFO''),
               (''deploymentPath'', PStr ''/var/www/html''), (''backupEnabled'', PBool True),
               (''services'', PList [])]) \<and>
   (path_exists E (calls st) (config_path E) = Inr True \<and>
    read_json E (calls st) (config_path E) = Inl m \<longrightarrow>
      fst (load_config E st) =
        PDict [(''environment'', PStr ''development''), (''logLevel'', PStr ''INFO''),
               (''deploymentPath'', PStr ''/var/www/html''), (''backupEnabled'', PBool True),
               (''services'', PList [])])"
  by (simp add: load_config_def get_default_config_def)

text \<open>
  The three cases at concrete installations: no file, a file that cannot be examined,
  and a file that is not JSON.
\<close>

theorem load_config_defaults_witness:
  "path_exists env_no_config (calls world0) (config_path env_no_config) = Inr False \<and>
   fst (load_config env_no_config world0) =
     PDict [(''environment'', PStr ''development''), (''logLevel'', PStr ''INFO''),
            (''deploymentPath'', PStr ''/var/www/html''), (''backupEnabled'', PBool True),
            (''services'', PList [])] \<and>
   path_exists env_unreadable_config (calls world0) (config_path env_unreadable_config) =
     Inl ''Permission denied'' \<and>
   fst (load_config env_unreadable_config world0) =
     PDict [(''environment'', PStr ''development''), (''logLevel'', PStr ''INFO''),
            (''deploymentPath'', PStr ''/var/www/html''), (''backupEnabled'', PBool True),
            (''services'', PList [])] \<and>
   path_exists env_bad_json (calls world0) (config_path env_bad_json) = Inr True \<and>
   read_json env_bad_json (calls world0) (config_path env_bad_json) =
     Inl ''Expecting value: line 1 column 1'' \<and>
   fst (load_config env_bad_json world0) =
     PDict [(''environment'', PStr ''development''), (''logLevel'', PStr ''INFO''),
            (''deploymentPath'', PStr ''/var/www/html''), (''backupEnabled'', PBool True),
            (''services'', PList [])]"
proof -
  have h1: "path_exists env_no_config (calls world0) (config_path env_no_config) = Inr False"
    by (simp add: env_no_config_def)
  have h2: "path_exists env_unreadable_config (calls world0)
              (config_path env_unreadable_config) = Inl ''Permission denied''"
    by (simp add: env_unreadable_config_def)
  have h3: "path_exists env_bad_json (calls world0) (config_path env_bad_json) = Inr True"
    by (simp add: env_bad_json_def demo_env_def config_path_def)
  have h4: "read_json env_bad_json (calls world0) (config_path env_bad_json) =
              Inl ''Expecting value: line 1 column 1''"
    by (simp add: env_bad_json_def)
  from h1 h2 h3 h4
    load_config_defaults [of env_no_config world0]
    load_config_defaults [of env_unreadable_config world0 "''Permission denied''"]
    load_config_defaults [of env_bad_json world0 "''Expecting value: line 1 column 1''"]
  show ?thesis by blast
qed

subsection \<open>Backup\<close>

text \<open>
  Claim C3.  When the configuration has \<^verbatim>\<open>backupEnabled\<close> set to false, \<^verbatim>\<open>backup_deployment\<close>
  returns exactly \<^verbatim>\<open>{'success': False, 'reason': 'Backup disabled'}\<close> and never calls
  \<^verbatim>\<open>subprocess.run\<close> (no copy, no child process), whatever destination path is
  supplied, and when none is.
\<close>

theorem backup_disabled_no_copy:
  assumes "map_of (config self) ''backupEnabled'' = Some (PBool False)"
  shows "fst (backup_deployment E self backup_path st) =
           PDict [(''success'', PBool False), (''reason'', PStr ''Backup disabled'')] \<and>
         calls (snd (backup_deployment E self backup_path st)) = calls st"
  using assms by (simp add: backup_deployment_def dict_get_def)

text \<open>A configuration with backups disabled, with a destination and without.\<close>

theorem backup_disabled_no_copy_witness:
  "map_of (config kit_no_backup) ''backupEnabled'' = Some (PBool False) \<and>
   fst (backup_deployment demo_env kit_no_backup (Some ''/tmp/x'') world0) =
     PDict [(''success'', PBool False), (''reason'', PStr ''Backup disabled'')] \<and>
   calls (snd (backup_deployment demo_env kit_no_backup (Some ''/tmp/x'') world0)) = [] \<and>
   fst (backup_deployment demo_env kit_no_backup None world0) =
     PDict [(''success'', PBool False), (''reason'', PStr ''Backup disabled'')] \<and>
   calls (snd (backup_deployment demo_env kit_no_backup None world0)) = []"
proof -
  have h: "map_of (config kit_no_backup) ''backupEnabled'' = Some (PBool False)"
    by (simp add: kit_no_backup_def)
  have w: "calls world0 = []"
    by (simp add: world0_def)
  from h w backup_disabled_no_copy [OF h, of demo_env "Some ''/tmp/x''" world0]
    backup_disabled_no_copy [OF h, of demo_env None world0]
  show ?thesis by simp
qed

subsection \<open>Deploy\<close>

lemma deploy_missing_script:
  assumes "path_exists E (calls st) (script_path E script_name) = Inr False"
  shows "execute_deployment E self script_name st =
           (PDict [(''success'', PBool False),
                   (''error'', PStr (''Deployment script not found: '' @
                                    script_path E script_name))],
            logger Error (''Deployment failed: Deployment script not found: '' @
                          script_path E script_name)
              (logger Info (''Starting deployment: '' @ script_name) st))"
  using assms by (simp add: execute_deployment_def deploy_try_def exc_str_def)

text \<open>
  Claim C1, as stated: for a script that exists, a child that exits with code 0 gives
  \<^verbatim>\<open>success: True\<close> with the captured standard output, and a child that exits with a
  code \<open>n\<close> other than 0 gives \<^verbatim>\<open>success: False\<close> with the captured standard error and
  the exit code \<open>n\<close>.  The program runs the child with \<^verbatim>\<open>text=True\<close>: when the child
  writes a byte that is not text, \<^verbatim>\<open>subprocess.run\<close> raises \<^verbatim>\<open>UnicodeDecodeError\<close>, which
  \<^verbatim>\<open>except Exception\<close> catches.  So a script that exits with 0 gives \<^verbatim>\<open>success: False\<close>,
  and a script that exits with 2 gives a result without any exit code.
\<close>

theorem deploy_undecodable_output_counterexample:
  "path_exists env_binary_output (calls world0) (script_path env_binary_output ''deploy'') =
     Inr True \<and>
   run_proc env_binary_output (calls world0)
     [''bash'', script_path env_binary_output ''deploy''] = ExitedUndecodable 0 codec_message \<and>
   fst (execute_deployment env_binary_output demo_kit ''deploy'' world0) =
     PDict [(''success'', PBool False), (''error'', PStr codec_message)] \<and>
   path_exists env_binary_output (calls world0) (script_path env_binary_output ''migrate'') =
     Inr True \<and>
   run_proc env_binary_output (calls world0)
     [''bash'', script_path env_binary_output ''migrate''] = ExitedUndecodable 2 codec_message \<and>
   fst (execute_deployment env_binary_output demo_kit ''migrate'' world0) =
     PDict [(''success'', PBool False), (''error'', PStr codec_message)]"
  by (simp add: execute_deployment_def deploy_try_def subprocess_run_def exc_str_def
        env_binary_output_def demo_env_def script_path_def)

text \<open>
  Claim C1, amended.  For a script that exists, \<^verbatim>\<open>execute_deployment\<close> classifies what the
  child process did.  When the output of the child is text: exit code 0 gives
  \<^verbatim>\<open>success: True\<close> with the captured standard output (and the captured standard error
  under \<^verbatim>\<open>stderr\<close>), and a non-zero exit code \<open>rc\<close> gives \<^verbatim>\<open>success: False\<close> with the captured
  standard error under \<^verbatim>\<open>error\<close> and \<open>rc\<close> under the key the program writes, \<^verbatim>\<open>exit_code\<close>.
  Any other failure of the call gives \<^verbatim>\<open>success: False\<close> with the failure's message
  under \<^verbatim>\<open>error\<close> and no exit code: a launch that fails, and a child whose output is not
  text, whatever its exit code.
\<close>

theorem deploy_classifies_child_exit:
  assumes "path_exists E (calls st) (script_path E script_name) = Inr True"
  shows "(run_proc E (calls st) [''bash'', script_path E script_name] = Exited 0 so se \<longrightarrow>
            fst (execute_deployment E self script_name st) =
              PDict [(''success'', PBool True), (''output'', PStr so), (''stderr'', PStr se)]) \<and>
         (rc \<noteq> 0 \<and>
          run_proc E (calls st) [''bash'', script_path E script_name] = Exited rc so se \<longrightarrow>
            fst (execute_deployment E self script_name st) =
              PDict [(''success'', PBool False), (''error'', PStr se),
                     (''exit_code'', PInt rc)]) \<and>
         (run_proc E (calls st) [''bash'', script_path E script_name] = LaunchError m \<longrightarrow>
            fst (execute_deployment E self script_name st) =
              PDict [(''success'', PBool False), (''error'', PStr m)]) \<and>
         (run_proc E (calls st) [''bash'', script_path E script_name] =
            ExitedUndecodable rc m \<longrightarrow>
            fst (execute_deployment E self script_name st) =
              PDict [(''success'', PBool False), (''error'', PStr m)])"
  using assms
  by (simp add: execute_deployment_def deploy_try_def subprocess_run_def exc_str_def)

text \<open>
  The four outcomes at concrete installations: \<^verbatim>\<open>deploy.sh\<close> exits with 0,
  \<^verbatim>\<open>migrate.sh\<close> exits with 2, \<^verbatim>\<open>bash\<close> cannot be launched for \<^verbatim>\<open>nobash.sh\<close>, and a
  \<^verbatim>\<open>migrate.sh\<close> that exits with 2 after writing a byte that is not text.
\<close>

theorem deploy_classifies_child_exit_witness:
  "path_exists demo_env (calls world0) (script_path demo_env ''deploy'') = Inr True \<and>
   run_proc demo_env (calls world0) [''bash'', script_path demo_env ''deploy''] =
     Exited 0 ''deployed'' [] \<and>
   fst (execute_deployment demo_env demo_kit ''deploy'' world0) =
     PDict [(''success'', PBool True), (''output'', PStr ''deployed''), (''stderr'', PStr [])] \<and>
   path_exists demo_env (calls world0) (script_path demo_env ''migrate'') = Inr True \<and>
   run_proc demo_env (calls world0) [''bash'', script_path demo_env ''migrate''] =
     Exited 2 [] ''migration failed'' \<and>
   fst (execute_deployment demo_env demo_kit ''migrate'' world0) =
     PDict [(''success'', PBool False), (''error'', PStr ''migration failed''),
            (''exit_code'', PInt 2)] \<and>
   path_exists demo_env (calls world0) (script_path demo_env ''nobash'') = Inr True \<and>
   run_proc demo_env (calls world0) [''bash'', script_path demo_env ''nobash''] =
     LaunchError ''No such file or directory: bash'' \<and>
   fst (execute_deployment demo_env demo_kit ''nobash'' world0) =
     PDict [(''success'', PBool False), (''error'', PStr ''No such file or directory: bash'')] \<and>
   path_exists env_binary_output (calls world0) (script_path env_binary_output ''migrate'') =
     Inr True \<and>
   run_proc env_binary_output (calls world0)
     [''bash'', script_path env_binary_output ''migrate''] = ExitedUndecodable 2 codec_message \<and>
   fst (execute_deployment env_binary_output demo_kit ''migrate'' world0) =
     PDict [(''success'', PBool False), (''error'', PStr codec_message)]"
proof -
  have e1: "path_exists demo_env (calls world0) (script_path demo_env ''deploy'') = Inr True"
    and e2: "path_exists demo_env (calls world0) (script_path demo_env ''migrate'') = Inr True"
    and e3: "path_exists demo_env (calls world0) (script_path demo_env ''nobash'') = Inr True"
    by (simp_all add: demo_env_def script_path_def)
  have e4: "path_exists env_binary_output (calls world0)
              (script_path env_binary_output ''migrate'') = Inr True"
    by (simp add: env_binary_output_def demo_env_def script_path_def)
  have r1: "run_proc demo_env (calls world0) [''bash'', script_path demo_env ''deploy''] =
              Exited 0 ''deployed'' []"
    and r2: "run_proc demo_env (calls world0) [''bash'', script_path demo_env ''migrate''] =
              Exited 2 [] ''migration failed''"
    and r3: "run_proc demo_env (calls world0) [''bash'', script_path demo_env ''nobash''] =
              LaunchError ''No such file or directory: bash''"
    by (simp_all add: demo_env_def script_path_def demo_run_def)
  have r4: "run_proc env_binary_output (calls world0)
              [''bash'', script_path env_binary_output ''migrate''] =
              ExitedUndecodable 2 codec_message"
    by (simp add: env_binary_output_def demo_env_def script_path_def)
  from e1 e2 e3 e4 r1 r2 r3 r4
    deploy_classifies_child_exit
      [OF e1, where so = "''deployed''" and se = "[]" and self = demo_kit]
    deploy_classifies_child_exit
      [OF e2, where rc = 2 and so = "[]" and se = "''migration failed''" and self = demo_kit]
    deploy_classifies_child_exit
      [OF e3, where m = "''No such file or directory: bash''" and self = demo_kit]
    deploy_classifies_child_exit
      [OF e4, where rc = 2 and m = codec_message and self = demo_kit]
  show ?thesis by simp
qed

text \<open>
  Claim C4.  For a script name whose script file does not exist, \<^verbatim>\<open>execute_deployment\<close>
  returns a result with \<^verbatim>\<open>success: False\<close> (and the \<^verbatim>\<open>FileNotFoundError\<close> message), and the
  command line \<^verbatim>\<open>deploy <name>\<close> ends the process with exit status 1; so does a bare
  \<^verbatim>\<open>deploy\<close> when the default script \<^verbatim>\<open>deploy.sh\<close> is the missing one.
\<close>

theorem deploy_missing_script_fails:
  assumes "path_exists E (calls st) (script_path E script_name) = Inr False"
  shows "fst (execute_deployment E self script_name st) =
           PDict [(''success'', PBool False),
                  (''error'', PStr (''Deployment script not found: '' @
                                   script_path E script_name))] \<and>
         exit_status (fst (main E (prog # ''deploy'' # script_name # rest) st)) = 1 \<and>
         (script_name = ''deploy'' \<longrightarrow> exit_status (fst (main E [prog, ''deploy''] st)) = 1)"
proof -
  obtain r st1 where init: "DeployKit_init E st = (r, st1)"
    by (cases "DeployKit_init E st")
  then have "calls st1 = calls st"
    using calls_DeployKit_init [of E st] by simp
  with assms have missing: "path_exists E (calls st1) (script_path E script_name) = Inr False"
    by simp
  have "exit_status (fst (main E (prog # ''deploy'' # script_name # rest) st)) = 1"
    using init deploy_missing_script [OF missing]
    by (cases r) (simp_all add: main_def exit_unless_success_def)
  moreover have "script_name = ''deploy'' \<longrightarrow>
                   exit_status (fst (main E [prog, ''deploy''] st)) = 1"
  proof
    assume "script_name = ''deploy''"
    with missing have "path_exists E (calls st1) (script_path E ''deploy'') = Inr False"
      by simp
    from init deploy_missing_script [OF this]
    show "exit_status (fst (main E [prog, ''deploy''] st)) = 1"
      by (cases r) (simp_all add: main_def exit_unless_success_def)
  qed
  ultimately show ?thesis
    using deploy_missing_script [OF assms] by simp
qed

text \<open>
  A script \<^verbatim>\<open>rollback.sh\<close> that the installation does not have, and an installation
  without any file for the default script.
\<close>

theorem deploy_missing_script_fails_witness:
  "path_exists demo_env (calls world0) (script_path demo_env ''rollback'') = Inr False \<and>
   fst (execute_deployment demo_env demo_kit ''rollback'' world0) =
     PDict [(''success'', PBool False),
            (''error'', PStr ''Deployment script not found: /opt/deploy-kit/scripts/rollback.sh'')] \<and>
   exit_status (fst (main demo_env [''main.py'', ''deploy'', ''rollback''] world0)) = 1 \<and>
   path_exists env_no_config (calls world0) (script_path env_no_config ''deploy'') = Inr False \<and>
   exit_status (fst (main env_no_config [''main.py'', ''deploy''] world0)) = 1"
proof -
  have h1: "path_exists demo_env (calls world0) (script_path demo_env ''rollback'') = Inr False"
    by (simp add: demo_env_def script_path_def)
  have h2: "path_exists env_no_config (calls world0) (script_path env_no_config ''deploy'') =
              Inr False"
    by (simp add: env_no_config_def)
  have p: "script_path demo_env ''rollback'' = ''/opt/deploy-kit/scripts/rollback.sh''"
    by (simp add: demo_env_def script_path_def)
  from h1 h2 p
    deploy_missing_script_fails [OF h1, where self = demo_kit and prog = "''main.py''" and rest = "[]"]
    deploy_missing_script_fails [OF h2, where self = demo_kit and prog = "''main.py''" and rest = "[]"]
  show ?thesis by simp
qed

subsection \<open>Restart\<close>

lemma calls_restart_one [simp]:
  "calls (restart_one E service st) = calls st @ [restart_argv service]"
proof -
  obtain r st1 where run:
    "subprocess_run E (restart_argv service)
       (logger Info (''Restarting service: '' @ fmt E service) st) = (r, st1)"
    by (cases "subprocess_run E (restart_argv service)
                 (logger Info (''Restarting service: '' @ fmt E service) st)")
  then have "calls st1 = calls st @ [restart_argv service]"
    using calls_subprocess_run
      [of E "restart_argv service" "logger Info (''Restarting service: '' @ fmt E service) st"]
    by simp
  with run show ?thesis
    by (simp add: restart_one_def split: sum.splits pyexc.splits)
qed

lemma calls_restart_loop:
  "calls (restart_loop E xs st) = calls st @ map restart_argv xs"
  by (induction xs arbitrary: st) simp_all

text \<open>
  Claim C2.  For every configured list of services, \<^verbatim>\<open>restart_services\<close> calls
  \<^verbatim>\<open>subprocess.run\<close> with \<^verbatim>\<open>sudo systemctl restart s\<close> once for every service \<open>s\<close> of the
  list, in the order of the list, and returns normally: whatever a restart does (a
  non-zero exit, a failure to launch, an argument that is not a string), the failure
  is caught inside the loop body and the loop goes on to the next service.  The
  statement holds for every \<open>env\<close>, hence for every pattern of failures.
\<close>

theorem restart_attempts_every_service:
  assumes "dict_get (config self) ''services'' (PList []) = PList xs"
  shows "fst (restart_services E self st) = Inr PNone \<and>
         calls (snd (restart_services E self st)) = calls st @ map restart_argv xs"
  using assms by (simp add: restart_services_def Let_def calls_restart_loop)

text \<open>Restarting \<^verbatim>\<open>nginx\<close> fails at the concrete installation; \<^verbatim>\<open>app\<close> is restarted after it.\<close>

theorem restart_attempts_every_service_witness:
  "dict_get (config demo_kit) ''services'' (PList []) = PList [PStr ''nginx'', PStr ''app''] \<and>
   run_proc demo_env (calls world0) [''sudo'', ''systemctl'', ''restart'', ''nginx''] =
     Exited 5 [] ''Unit nginx.service not found.'' \<and>
   fst (restart_services demo_env demo_kit world0) = Inr PNone \<and>
   calls (snd (restart_services demo_env demo_kit world0)) =
     [[PStr ''sudo'', PStr ''systemctl'', PStr ''restart'', PStr ''nginx''],
      [PStr ''sudo'', PStr ''systemctl'', PStr ''restart'', PStr ''app'']]"
proof -
  have h: "dict_get (config demo_kit) ''services'' (PList []) =
             PList [PStr ''nginx'', PStr ''app'']"
    by (simp add: demo_kit_def demo_config_def dict_get_def)
  have r: "run_proc demo_env (calls world0) [''sudo'', ''systemctl'', ''restart'', ''nginx''] =
             Exited 5 [] ''Unit nginx.service not found.''"
    by (simp add: demo_env_def demo_run_def)
  from h r restart_attempts_every_service [OF h, where E = demo_env and st = world0]
  show ?thesis by (simp add: restart_argv_def world0_def)
qed

subsection \<open>The destination of a backup\<close>

lemma fmt_PStr [simp]: "fmt E (PStr s) = s"
  by (simp add: fmt_def)

text \<open>A number below \<open>10 ^ w\<close> padded to \<open>w\<close> digits has exactly \<open>w\<close> characters.\<close>

lemma length_str_nat: "0 < w \<Longrightarrow> n < 10 ^ w \<Longrightarrow> length (str_nat n) \<le> w"
proof (induction n arbitrary: w rule: str_nat.induct)
  case (1 n)
  show ?case
  proof (cases "n < 10")
    case True
    with "1.prems" show ?thesis
      by (simp add: str_nat.simps [of n])
  next
    case False
    with "1.prems" have "1 < w"
      by (cases "w = 1") auto
    then obtain v where w: "w = Suc v" and v: "0 < v"
      by (cases w) auto
    with "1.prems" have "n div 10 < 10 ^ v"
      by (simp add: less_mult_imp_div_less mult.commute)
    with False v have "length (str_nat (n div 10)) \<le> v"
      by (intro "1.IH") auto
    with False w show ?thesis
      by (simp add: str_nat.simps [of n])
  qed
qed

lemma length_zpad: "0 < w \<Longrightarrow> n < 10 ^ w \<Longrightarrow> length (zpad w n) = w"
  using length_str_nat [of w n] by (simp add: zpad_def)

lemma backup_destination_derived:
  "p = None \<or> p = Some [] \<Longrightarrow>
   backup_destination E deployment_path p st =
     fmt E deployment_path @ ''_backup_'' @
     zpad 4 (year (clock E (calls st))) @ zpad 2 (month (clock E (calls st))) @
     zpad 2 (day (clock E (calls st))) @ ''_'' @ zpad 2 (hour (clock E (calls st))) @
     zpad 2 (minute (clock E (calls st))) @ zpad 2 (second (clock E (calls st)))"
  by (auto simp: backup_destination_def directive_def)

lemma backup_enabled_calls:
  assumes "truthy (dict_get (config self) ''backupEnabled'' (PBool True))"
  shows "calls (snd (backup_deployment E self p st)) =
           calls st @
           [[PStr ''cp'', PStr ''-r'',
             dict_get (config self) ''deploymentPath'' (PStr ''/var/www/html''),
             PStr (backup_destination E
                     (dict_get (config self) ''deploymentPath'' (PStr ''/var/www/html''))
                     p st)]]"
proof -
  let ?dp = "dict_get (config self) ''deploymentPath'' (PStr ''/var/www/html'')"
  let ?dest = "backup_destination E ?dp p st"
  let ?st1 = "logger Info (''Creating backup: '' @ fmt E ?dp @ '' -> '' @ ?dest) st"
  let ?args = "[PStr ''cp'', PStr ''-r'', ?dp, PStr ?dest]"
  obtain r st2 where run: "subprocess_run E ?args ?st1 = (r, st2)"
    by (cases "subprocess_run E ?args ?st1")
  then have "calls st2 = calls st @ [?args]"
    using calls_subprocess_run [of E ?args ?st1] by simp
  with run assms show ?thesis
    by (simp add: backup_deployment_def Let_def split: sum.splits)
qed

lemma backup_enabled_success:
  assumes "truthy (dict_get (config self) ''backupEnabled'' (PBool True))"
    and "dict_get (config self) ''deploymentPath'' (PStr ''/var/www/html'') = PStr d"
    and "run_proc E (calls st) [''cp'', ''-r'', d, backup_destination E (PStr d) p st] =
           Exited 0 so se"
  shows "fst (backup_deployment E self p st) =
           PDict [(''success'', PBool True),
                  (''backup_path'', PStr (backup_destination E (PStr d) p st))]"
  using assms by (simp add: backup_deployment_def Let_def subprocess_run_def)

text \<open>
  Claim C6.  With backups enabled and no path supplied (\<^verbatim>\<open>backup_path\<close> is \<^verbatim>\<open>None\<close>), the
  destination is exactly the configured \<^verbatim>\<open>deploymentPath\<close> (as the f-string prints it:
  a string is itself, \<open>fmt E (PStr d) = d\<close>), followed by \<^verbatim>\<open>_backup_\<close>, followed by the
  current time as year (4 digits), month, day (2 digits each), an underscore, hour,
  minute and second (2 digits each): 15 characters for every time a clock can show.
  That destination is the last argument of the \<^verbatim>\<open>cp -r\<close> that is run, and the
  \<^verbatim>\<open>backup_path\<close> of the result when the copy succeeds.
\<close>

theorem backup_derives_timestamped_destination:
  assumes "truthy (dict_get (config self) ''backupEnabled'' (PBool True))"
  shows "(let deployment_path = dict_get (config self) ''deploymentPath'' (PStr ''/var/www/html'');
              now = clock E (calls st);
              stamp = zpad 4 (year now) @ zpad 2 (month now) @ zpad 2 (day now) @ ''_'' @
                      zpad 2 (hour now) @ zpad 2 (minute now) @ zpad 2 (second now);
              dest = fmt E deployment_path @ ''_backup_'' @ stamp
          in backup_destination E deployment_path None st = dest \<and>
             calls (snd (backup_deployment E self None st)) =
               calls st @ [[PStr ''cp'', PStr ''-r'', deployment_path, PStr dest]] \<and>
             (deployment_path = PStr d \<and>
              run_proc E (calls st) [''cp'', ''-r'', d, dest] = Exited 0 so se \<longrightarrow>
                fst (backup_deployment E self None st) =
                  PDict [(''success'', PBool True), (''backup_path'', PStr dest)]) \<and>
             (year now < 10000 \<and> month now < 100 \<and> day now < 100 \<and> hour now < 100 \<and>
              minute now < 100 \<and> second now < 100 \<longrightarrow> length stamp = 15))"
proof -
  let ?dp = "dict_get (config self) ''deploymentPath'' (PStr ''/var/www/html'')"
  let ?now = "clock E (calls st)"
  let ?stamp = "zpad 4 (year ?now) @ zpad 2 (month ?now) @ zpad 2 (day ?now) @ ''_'' @
                zpad 2 (hour ?now) @ zpad 2 (minute ?now) @ zpad 2 (second ?now)"
  have dest: "backup_destination E ?dp None st = fmt E ?dp @ ''_backup_'' @ ?stamp"
    by (rule backup_destination_derived) simp
  have run: "calls (snd (backup_deployment E self None st)) =
      calls st @ [[PStr ''cp'', PStr ''-r'', ?dp, PStr (backup_destination E ?dp None st)]]"
    by (rule backup_enabled_calls [OF assms])
  have ok: "?dp = PStr d \<and>
      run_proc E (calls st) [''cp'', ''-r'', d, backup_destination E ?dp None st] =
        Exited 0 so se \<longrightarrow>
      fst (backup_deployment E self None st) =
        PDict [(''success'', PBool True),
               (''backup_path'', PStr (backup_destination E ?dp None st))]"
    using backup_enabled_success [OF assms, of d E st None so se] by auto
  have width: "year ?now < 10000 \<and> month ?now < 100 \<and> day ?now < 100 \<and> hour ?now < 100 \<and>
      minute ?now < 100 \<and> second ?now < 100 \<longrightarrow> length ?stamp = 15"
    by (simp add: length_zpad)
  from run ok width show ?thesis
    unfolding Let_def dest [symmetric] by simp
qed

text \<open>
  At the concrete installation, on 9 March 2024 at 07:05:42, the deployment path
  \<^verbatim>\<open>/srv/app\<close> is copied to \<^verbatim>\<open>/srv/app_backup_20240309_070542\<close>.
\<close>

theorem backup_derives_timestamped_destination_witness:
  "truthy (dict_get (config demo_kit) ''backupEnabled'' (PBool True)) \<and>
   backup_destination demo_env (PStr ''/srv/app'') None world0 =
     ''/srv/app_backup_20240309_070542'' \<and>
   calls (snd (backup_deployment demo_env demo_kit None world0)) =
     [[PStr ''cp'', PStr ''-r'', PStr ''/srv/app'', PStr ''/srv/app_backup_20240309_070542'']] \<and>
   fst (backup_deployment demo_env demo_kit None world0) =
     PDict [(''success'', PBool True),
            (''backup_path'', PStr ''/srv/app_backup_20240309_070542'')] \<and>
   length ''20240309_070542'' = 15"
proof -
  have h: "truthy (dict_get (config demo_kit) ''backupEnabled'' (PBool True))"
    by (simp add: demo_kit_def demo_config_def dict_get_def)
  have dp: "dict_get (config demo_kit) ''deploymentPath'' (PStr ''/var/www/html'') =
              PStr ''/srv/app''"
    by (simp add: demo_kit_def demo_config_def dict_get_def)
  have now: "\<And>h. clock demo_env h =
               \<lparr>year = 2024, month = 3, day = 9, hour = 7, minute = 5, second = 42,
                microsecond = 0\<rparr>"
    by (simp add: demo_env_def)
  have z: "zpad 4 2024 = ''2024''" "zpad 2 3 = ''03''" "zpad 2 9 = ''09''"
    "zpad 2 7 = ''07''" "zpad 2 5 = ''05''" "zpad 2 42 = ''42''"
    by code_simp+
  have r: "\<And>h. run_proc demo_env h
             [''cp'', ''-r'', ''/srv/app'', ''/srv/app_backup_20240309_070542''] = Exited 0 [] []"
    by (simp add: demo_env_def demo_run_def)
  have w: "calls world0 = []"
    by (simp add: world0_def)
  from backup_derives_timestamped_destination
         [OF h, where E = demo_env and st = world0 and d = "''/srv/app''" and so = "[]"
            and se = "[]"]
  show ?thesis
    using h r w by (simp add: Let_def dp now z)
qed

text \<open>
  Claim C10.  With backups enabled, the empty string as the destination path is
  treated as no path at all: \<^verbatim>\<open>backup_deployment\<close> does exactly what it does for
  \<^verbatim>\<open>None\<close>, and the destination handed to \<^verbatim>\<open>cp -r\<close> is the derived, timestamped path,
  which is not the empty string.
\<close>

theorem backup_empty_path_is_no_path:
  assumes "truthy (dict_get (config self) ''backupEnabled'' (PBool True))"
  shows "(let deployment_path = dict_get (config self) ''deploymentPath'' (PStr ''/var/www/html'');
              now = clock E (calls st);
              dest = fmt E deployment_path @ ''_backup_'' @
                     zpad 4 (year now) @ zpad 2 (month now) @ zpad 2 (day now) @ ''_'' @
                     zpad 2 (hour now) @ zpad 2 (minute now) @ zpad 2 (second now)
          in backup_deployment E self (Some '''') st = backup_deployment E self None st \<and>
             calls (snd (backup_deployment E self (Some '''') st)) =
               calls st @ [[PStr ''cp'', PStr ''-r'', deployment_path, PStr dest]] \<and>
             dest \<noteq> '''')"
proof -
  let ?dp = "dict_get (config self) ''deploymentPath'' (PStr ''/var/www/html'')"
  have same: "backup_destination E ?dp (Some '''') st = backup_destination E ?dp None st"
    by (simp add: backup_destination_def)
  have eq: "backup_deployment E self (Some '''') st = backup_deployment E self None st"
    by (simp add: backup_deployment_def same)
  have dest: "backup_destination E ?dp (Some '''') st =
      fmt E ?dp @ ''_backup_'' @
      zpad 4 (year (clock E (calls st))) @ zpad 2 (month (clock E (calls st))) @
      zpad 2 (day (clock E (calls st))) @ ''_'' @ zpad 2 (hour (clock E (calls st))) @
      zpad 2 (minute (clock E (calls st))) @ zpad 2 (second (clock E (calls st)))"
    by (rule backup_destination_derived) simp
  have run: "calls (snd (backup_deployment E self (Some '''') st)) =
      calls st @ [[PStr ''cp'', PStr ''-r'', ?dp, PStr (backup_destination E ?dp (Some '''') st)]]"
    by (rule backup_enabled_calls [OF assms])
  from eq run show ?thesis
    unfolding Let_def dest [symmetric] by (simp add: dest)
qed

text \<open>The same backup at the concrete installation, asked for with the empty string.\<close>

theorem backup_empty_path_is_no_path_witness:
  "truthy (dict_get (config demo_kit) ''backupEnabled'' (PBool True)) \<and>
   backup_deployment demo_env demo_kit (Some '''') world0 =
     backup_deployment demo_env demo_kit None world0 \<and>
   calls (snd (backup_deployment demo_env demo_kit (Some '''') world0)) =
     [[PStr ''cp'', PStr ''-r'', PStr ''/srv/app'', PStr ''/srv/app_backup_20240309_070542'']]"
proof -
  have h: "truthy (dict_get (config demo_kit) ''backupEnabled'' (PBool True))"
    by (simp add: demo_kit_def demo_config_def dict_get_def)
  have dp: "dict_get (config demo_kit) ''deploymentPath'' (PStr ''/var/www/html'') =
              PStr ''/srv/app''"
    by (simp add: demo_kit_def demo_config_def dict_get_def)
  have now: "\<And>h. clock demo_env h =
               \<lparr>year = 2024, month = 3, day = 9, hour = 7, minute = 5, second = 42,
                microsecond = 0\<rparr>"
    by (simp add: demo_env_def)
  have z: "zpad 4 2024 = ''2024''" "zpad 2 3 = ''03''" "zpad 2 9 = ''09''"
    "zpad 2 7 = ''07''" "zpad 2 5 = ''05''" "zpad 2 42 = ''42''"
    by code_simp+
  have w: "calls world0 = []"
    by (simp add: world0_def)
  from backup_empty_path_is_no_path [OF h, where E = demo_env and st = world0]
  show ?thesis
    using h w by (auto simp add: Let_def dp now z)
qed

subsection \<open>The results of the actions\<close>

text \<open>The dicts that \<^verbatim>\<open>execute_deployment\<close> and \<^verbatim>\<open>backup_deployment\<close> can return.\<close>

lemma deploy_try_returns:
  "deploy_try E script_name st = (Inr v, st') \<Longrightarrow>
   \<exists>so se. v = PDict [(''success'', PBool True), (''output'', PStr so), (''stderr'', PStr se)]"
  by (auto simp: deploy_try_def split: sum.splits bool.splits prod.splits)

lemma deploy_result_cases:
  "(\<exists>so se. fst (execute_deployment E self script_name st) =
       PDict [(''success'', PBool True), (''output'', PStr so), (''stderr'', PStr se)]) \<or>
   (\<exists>se rc. fst (execute_deployment E self script_name st) =
       PDict [(''success'', PBool False), (''error'', PStr se), (''exit_code'', PInt rc)]) \<or>
   (\<exists>m. fst (execute_deployment E self script_name st) =
       PDict [(''success'', PBool False), (''error'', PStr m)])"
proof -
  obtain r st1 where try_result:
    "deploy_try E script_name (logger Info (''Starting deployment: '' @ script_name) st) = (r, st1)"
    by (cases "deploy_try E script_name
                 (logger Info (''Starting deployment: '' @ script_name) st)")
  show ?thesis
  proof (cases r)
    case (Inl e)
    with try_result show ?thesis
      by (cases e) (simp_all add: execute_deployment_def)
  next
    case (Inr v)
    with try_result deploy_try_returns [of E script_name _ v st1] show ?thesis
      by (auto simp: execute_deployment_def)
  qed
qed

lemma backup_result_cases:
  "fst (backup_deployment E self backup_path st) =
     PDict [(''success'', PBool False), (''reason'', PStr ''Backup disabled'')] \<or>
   (\<exists>d. fst (backup_deployment E self backup_path st) =
       PDict [(''success'', PBool True), (''backup_path'', PStr d)]) \<or>
   (\<exists>m. fst (backup_deployment E self backup_path st) =
       PDict [(''success'', PBool False), (''error'', PStr m)])"
  by (simp add: backup_deployment_def Let_def split: prod.splits sum.splits)

text \<open>
  Claim C7, as stated: every action produces an \<open>ActionResult\<close> record, and a result
  with \<^verbatim>\<open>success\<close> true has no \<^verbatim>\<open>error\<close> and no exit code.  The first half fails for the
  action restart: \<^verbatim>\<open>restart_services\<close> is declared \<^verbatim>\<open>-> None\<close> and returns no record, here
  at the concrete installation.
\<close>

theorem restart_returns_no_result:
  "\<not> (\<exists>r. fst (restart_services demo_env demo_kit world0) = Inr r \<and> is_ActionResult r)"
  by (simp add: restart_services_def Let_def demo_kit_def demo_config_def dict_get_def)

text \<open>
  Claim C7, amended.  The actions deploy and backup each produce a result record (a
  dict with a boolean \<^verbatim>\<open>success\<close>), and whenever \<^verbatim>\<open>success\<close> is true the result has no key
  \<^verbatim>\<open>error\<close> and no exit code (neither the program's key \<^verbatim>\<open>exit_code\<close> nor \<^verbatim>\<open>exitCode\<close>).
  The action restart returns \<^verbatim>\<open>None\<close> when it returns, and the snapshot of the action
  status has no key \<^verbatim>\<open>success\<close>.
\<close>

theorem action_results_unambiguous:
  "is_ActionResult (fst (execute_deployment E self script_name st)) \<and>
   (getitem (fst (execute_deployment E self script_name st)) ''success'' = Inr (PBool True) \<longrightarrow>
      \<not> has_key (fst (execute_deployment E self script_name st)) ''error'' \<and>
      \<not> has_key (fst (execute_deployment E self script_name st)) ''exit_code'' \<and>
      \<not> has_key (fst (execute_deployment E self script_name st)) ''exitCode'') \<and>
   is_ActionResult (fst (backup_deployment E self backup_path st)) \<and>
   (getitem (fst (backup_deployment E self backup_path st)) ''success'' = Inr (PBool True) \<longrightarrow>
      \<not> has_key (fst (backup_deployment E self backup_path st)) ''error'' \<and>
      \<not> has_key (fst (backup_deployment E self backup_path st)) ''exit_code'' \<and>
      \<not> has_key (fst (backup_deployment E self backup_path st)) ''exitCode'') \<and>
   (fst (restart_services E self st) = Inr PNone \<or> isl (fst (restart_services E self st))) \<and>
   \<not> has_key (fst (get_status E self st)) ''success''"
proof -
  have deploy:
    "is_ActionResult (fst (execute_deployment E self script_name st)) \<and>
     (getitem (fst (execute_deployment E self script_name st)) ''success'' = Inr (PBool True) \<longrightarrow>
        \<not> has_key (fst (execute_deployment E self script_name st)) ''error'' \<and>
        \<not> has_key (fst (execute_deployment E self script_name st)) ''exit_code'' \<and>
        \<not> has_key (fst (execute_deployment E self script_name st)) ''exitCode'')"
    using deploy_result_cases [of E self script_name st] by (elim disjE exE) simp_all
  have backup:
    "is_ActionResult (fst (backup_deployment E self backup_path st)) \<and>
     (getitem (fst (backup_deployment E self backup_path st)) ''success'' = Inr (PBool True) \<longrightarrow>
        \<not> has_key (fst (backup_deployment E self backup_path st)) ''error'' \<and>
        \<not> has_key (fst (backup_deployment E self backup_path st)) ''exit_code'' \<and>
        \<not> has_key (fst (backup_deployment E self backup_path st)) ''exitCode'')"
    using backup_result_cases [of E self backup_path st] by (elim disjE exE) simp_all
  have restart:
    "fst (restart_services E self st) = Inr PNone \<or> isl (fst (restart_services E self st))"
    by (simp add: restart_services_def Let_def split: sum.splits)
  have status: "\<not> has_key (fst (get_status E self st)) ''success''"
    by (simp add: get_status_def)
  from deploy backup restart status show ?thesis by blast
qed

text \<open>A deployment and a backup that succeed at the concrete installation.\<close>

theorem action_results_unambiguous_witness:
  "getitem (fst (execute_deployment demo_env demo_kit ''deploy'' world0)) ''success'' =
     Inr (PBool True) \<and>
   is_ActionResult (fst (execute_deployment demo_env demo_kit ''deploy'' world0)) \<and>
   \<not> has_key (fst (execute_deployment demo_env demo_kit ''deploy'' world0)) ''error'' \<and>
   \<not> has_key (fst (execute_deployment demo_env demo_kit ''deploy'' world0)) ''exit_code'' \<and>
   getitem (fst (backup_deployment demo_env demo_kit (Some ''/tmp/x'') world0)) ''success'' =
     Inr (PBool True) \<and>
   is_ActionResult (fst (backup_deployment demo_env demo_kit (Some ''/tmp/x'') world0)) \<and>
   \<not> has_key (fst (backup_deployment demo_env demo_kit (Some ''/tmp/x'') world0)) ''error'' \<and>
   \<not> has_key (fst (backup_deployment demo_env demo_kit (Some ''/tmp/x'') world0)) ''exit_code''"
proof -
  have d: "getitem (fst (execute_deployment demo_env demo_kit ''deploy'' world0)) ''success'' =
             Inr (PBool True)"
    by (simp add: execute_deployment_def deploy_try_def subprocess_run_def demo_env_def
          script_path_def demo_run_def)
  have b: "getitem (fst (backup_deployment demo_env demo_kit (Some ''/tmp/x'') world0))
             ''success'' = Inr (PBool True)"
    by (simp add: backup_deployment_def Let_def subprocess_run_def demo_env_def demo_run_def
          demo_kit_def demo_config_def dict_get_def backup_destination_def)
  from d b
    action_results_unambiguous
      [of demo_env demo_kit "''deploy''" world0 "Some ''/tmp/x''"]
  show ?thesis by blast
qed

subsection \<open>Status\<close>

lemma init_config:
  "DeployKit_init E st0 = (Inr self, st1) \<Longrightarrow> load_config E st0 = (PDict (config self), st1)"
  by (auto simp: DeployKit_init_def split: prod.splits pyval.splits sum.splits)

text \<open>
  Claim C8.  For an object that the constructor has built, \<^verbatim>\<open>get_status\<close> returns (its
  model has no branch that raises, as the method has no operation that can), leaves
  the world as it is (no call of \<^verbatim>\<open>subprocess.run\<close>, nothing written), and its result
  has exactly the keys \<^verbatim>\<open>environment\<close>, \<^verbatim>\<open>timestamp\<close>, \<^verbatim>\<open>config\<close> and \<^verbatim>\<open>services\<close>, where
  \<^verbatim>\<open>config\<close> is the configuration that \<^verbatim>\<open>load_config\<close> returned and \<^verbatim>\<open>services\<close> is its entry
  \<^verbatim>\<open>services\<close> (the empty list when it has none).  The command line \<^verbatim>\<open>status\<close> prints
  that snapshot and returns, when \<^verbatim>\<open>json.dumps\<close> can encode it.
\<close>

theorem status_snapshot:
  assumes "DeployKit_init E st0 = (Inr self, st1)"
  shows "load_config E st0 = (PDict (config self), st1) \<and>
         snd (get_status E self st) = st \<and>
         fst (get_status E self st) =
           PDict [(''environment'', dict_get (config self) ''environment'' PNone),
                  (''timestamp'', PStr (isoformat (clock E (calls st)))),
                  (''config'', PDict (config self)),
                  (''services'', dict_get (config self) ''services'' (PList []))] \<and>
         (json_dumps_error E (fst (get_status E self st1)) = None \<longrightarrow>
            main E (prog # ''status'' # rest) st0 =
              (Returned, st1\<lparr>out := out st1 @ [PrintJson (fst (get_status E self st1))]\<rparr>))"
  using assms init_config [OF assms] by (simp add: get_status_def main_def)

text \<open>The snapshot of the concrete installation.\<close>

theorem status_snapshot_witness:
  "DeployKit_init demo_env world0 = (Inr demo_kit, world0) \<and>
   load_config demo_env world0 = (PDict (config demo_kit), world0) \<and>
   get_status demo_env demo_kit world0 =
     (PDict [(''environment'', PStr ''production''),
             (''timestamp'', PStr ''2024-03-09T07:05:42''),
             (''config'', PDict demo_config),
             (''services'', PList [PStr ''nginx'', PStr ''app''])],
      world0) \<and>
   json_dumps_error demo_env (fst (get_status demo_env demo_kit world0)) = None \<and>
   fst (main demo_env [''main.py'', ''status''] world0) = Returned"
proof -
  have init: "DeployKit_init demo_env world0 = (Inr demo_kit, world0)"
    by code_simp
  have encodes: "json_dumps_error demo_env (fst (get_status demo_env demo_kit world0)) = None"
    by code_simp
  have z: "zpad 4 2024 = ''2024''" "zpad 2 3 = ''03''" "zpad 2 9 = ''09''"
    "zpad 2 7 = ''07''" "zpad 2 5 = ''05''" "zpad 2 42 = ''42''"
    by code_simp+
  have iso: "\<And>h. isoformat (clock demo_env h) = ''2024-03-09T07:05:42''"
    by (simp add: isoformat_def demo_env_def z)
  have cfg: "config demo_kit = demo_config"
    "dict_get demo_config ''environment'' PNone = PStr ''production''"
    "dict_get demo_config ''services'' (PList []) = PList [PStr ''nginx'', PStr ''app'']"
    by (simp_all add: demo_kit_def demo_config_def dict_get_def)
  note snapshot =
    status_snapshot [OF init, where st = world0 and prog = "''main.py''" and rest = "[]"]
  from snapshot encodes have "fst (main demo_env [''main.py'', ''status''] world0) = Returned"
    by simp
  with snapshot init encodes show ?thesis
    by (auto simp add: iso cfg prod_eq_iff)
qed


subsection \<open>The exit status of the command line\<close>

text \<open>
  When the constructor returns: exactly when the loaded configuration is a dict whose
  \<^verbatim>\<open>logLevel\<close> (or the default \<^verbatim>\<open>INFO\<close>) is a string that names a logging level, in
  upper or lower case.
\<close>

lemma DeployKit_init_returns_iff:
  "(\<exists>kit st1. DeployKit_init E st = (Inr kit, st1)) \<longleftrightarrow>
   (\<exists>kvs s. fst (load_config E st) = PDict kvs \<and>
            dict_get kvs ''logLevel'' (PStr ''INFO'') = PStr s \<and>
            upper s \<in> fst ` set logging_levels)"
proof -
  obtain v st1 where lc: "load_config E st = (v, st1)"
    by (cases "load_config E st")
  have level: "(\<exists>lvl. map_of logging_levels name = Some lvl) \<longleftrightarrow>
               name \<in> fst ` set logging_levels" for name
    using map_of_eq_None_iff [of logging_levels name] by auto
  show ?thesis
  proof (cases v)
    case (PDict kvs)
    show ?thesis
    proof (cases "dict_get kvs ''logLevel'' (PStr ''INFO'')")
      case (PStr s)
      with lc PDict level [of "upper s"] show ?thesis
        by (auto simp: DeployKit_init_def setup_logging_def split: option.splits)
    qed (use lc PDict in \<open>simp_all add: DeployKit_init_def setup_logging_def\<close>)
  qed (use lc in \<open>simp_all add: DeployKit_init_def\<close>)
qed

lemma restart_services_raises_iff:
  "isl (fst (restart_services E self st)) \<longleftrightarrow>
   truthy (dict_get (config self) ''services'' (PList [])) \<and>
   isl (py_iter (dict_get (config self) ''services'' (PList [])))"
  by (simp add: restart_services_def Let_def split: sum.splits)

lemma main_status:
  "DeployKit_init E st = (Inr kit, st1) \<Longrightarrow>
   main E (prog # ''status'' # rest) st =
     (case json_dumps_error E (fst (get_status E kit st1)) of
        Some m \<Rightarrow> (Uncaught (PyException ''RecursionError'' m), st1)
      | None \<Rightarrow> (Returned, st1\<lparr>out := out st1 @ [PrintJson (fst (get_status E kit st1))]\<rparr>))"
  by (simp add: main_def get_status_def split: option.splits)

lemma depth_nested: "depth (nested n) = Suc n"
  by (induction n) simp_all

lemma upper_INFO: "upper ''INFO'' = ''INFO''"
  by code_simp

lemma exit_unless_success_status:
  assumes "is_ActionResult result"
  shows "exit_status (fst (exit_unless_success result st)) =
           (if getitem result ''success'' = Inr (PBool False) then 1 else 0)"
proof (cases result)
  case (PDict kvs)
  with assms obtain b where "map_of kvs ''success'' = Some (PBool b)"
    by (auto split: option.splits pyval.splits)
  with PDict show ?thesis
    by (simp add: exit_unless_success_def)
qed (use assms in simp_all)

text \<open>
  Claim C9, as stated: the command line exits with status 0 for \<^verbatim>\<open>status\<close> and \<^verbatim>\<open>restart\<close>
  in every case, and with no arguments it prints the usage text and exits with 0.
  \<^verbatim>\<open>main\<close> first constructs \<^verbatim>\<open>DeployKit()\<close>, outside every \<^verbatim>\<open>try\<close>.  With the configuration
  file \<^verbatim>\<open>{"logLevel": "verbose"}\<close> the constructor raises (the module \<^verbatim>\<open>logging\<close> has no
  attribute \<^verbatim>\<open>VERBOSE\<close>) and the process ends with status 1, for \<^verbatim>\<open>status\<close> and for no
  argument at all; with \<^verbatim>\<open>{"services": 1}\<close> the \<^verbatim>\<open>for\<close> statement of \<^verbatim>\<open>restart_services\<close>
  raises and \<^verbatim>\<open>restart\<close> ends with status 1; and with a configuration file nested a
  thousand lists deep, which \<^verbatim>\<open>json.load\<close> accepts, \<^verbatim>\<open>json.dumps\<close> raises in the status
  branch and \<^verbatim>\<open>status\<close> ends with status 1.
\<close>

theorem cli_exit_status_counterexample:
  "exit_status (fst (main (env_with_config (PDict [(''logLevel'', PStr ''verbose'')]))
                      [''main.py'', ''status''] world0)) \<noteq> 0 \<and>
   exit_status (fst (main (env_with_config (PDict [(''logLevel'', PStr ''verbose'')]))
                      [''main.py''] world0)) \<noteq> 0 \<and>
   exit_status (fst (main (env_with_config (PDict [(''services'', PInt 1)]))
                      [''main.py'', ''restart''] world0)) \<noteq> 0 \<and>
   exit_status (fst (main (env_with_config (PDict [(''extra'', nested 1000)]))
                      [''main.py'', ''status''] world0)) \<noteq> 0"
proof -
  have shallow:
    "exit_status (fst (main (env_with_config (PDict [(''logLevel'', PStr ''verbose'')]))
                        [''main.py'', ''status''] world0)) \<noteq> 0 \<and>
     exit_status (fst (main (env_with_config (PDict [(''logLevel'', PStr ''verbose'')]))
                        [''main.py''] world0)) \<noteq> 0 \<and>
     exit_status (fst (main (env_with_config (PDict [(''services'', PInt 1)]))
                        [''main.py'', ''restart''] world0)) \<noteq> 0"
    by code_simp
  have init:
    "DeployKit_init (env_with_config (PDict [(''extra'', nested 1000)])) world0 =
       (Inr \<lparr>config = [(''extra'', nested 1000)], log_level = 20\<rparr>, world0)"
    by (simp add: DeployKit_init_def load_config_def env_with_config_def demo_env_def
          config_path_def setup_logging_def dict_get_def upper_INFO logging_levels_def)
  have too_deep:
    "json_dumps_error (env_with_config (PDict [(''extra'', nested 1000)]))
       (fst (get_status (env_with_config (PDict [(''extra'', nested 1000)]))
               \<lparr>config = [(''extra'', nested 1000)], log_level = 20\<rparr> world0)) =
       Some ''maximum recursion depth exceeded''"
    by (simp add: get_status_def env_with_config_def demo_env_def dict_get_def depth_nested)
  have deep:
    "exit_status (fst (main (env_with_config (PDict [(''extra'', nested 1000)]))
                        [''main.py'', ''status''] world0)) \<noteq> 0"
    using main_status [OF init, of "''main.py''" "[]"] too_deep by simp
  from shallow deep show ?thesis by simp
qed

text \<open>
  Claim C9, amended.  When the constructor \<^verbatim>\<open>DeployKit()\<close> raises, the process ends with
  status 1 whatever the arguments.  When it returns: \<^verbatim>\<open>status\<close> exits with 0, unless
  \<^verbatim>\<open>json.dumps\<close> cannot encode the snapshot (then 1); \<^verbatim>\<open>restart\<close> exits with 0 for every
  configured value of \<^verbatim>\<open>services\<close> that is false or can be iterated over (a list above
  all), whatever the restarts do, and with 1 only for a value that is true and not
  iterable; \<^verbatim>\<open>deploy\<close> and \<^verbatim>\<open>backup\<close> exit with 1 exactly when the result of the action has
  \<^verbatim>\<open>success\<close> false, and with 0 otherwise; an unknown subcommand prints
  \<^verbatim>\<open>Unknown command: ...\<close> and exits with 1; and with no argument the usage text is
  printed and the exit status is 0.
\<close>

theorem cli_exit_status:
  "(DeployKit_init E st = (Inl e, st1) \<longrightarrow> exit_status (fst (main E argv st)) = 1) \<and>
   (DeployKit_init E st = (Inr kit, st1) \<longrightarrow>
      exit_status (fst (main E (prog # ''status'' # rest) st)) =
        (if json_dumps_error E (fst (get_status E kit st1)) = None then 0 else 1) \<and>
      exit_status (fst (main E (prog # ''restart'' # rest) st)) =
        (if truthy (dict_get (config kit) ''services'' (PList [])) \<and>
            isl (py_iter (dict_get (config kit) ''services'' (PList [])))
         then 1 else 0) \<and>
      exit_status (fst (main E (prog # ''deploy'' # rest) st)) =
        (if getitem (fst (execute_deployment E kit
                            (if rest = [] then ''deploy'' else hd rest) st1)) ''success'' =
            Inr (PBool False)
         then 1 else 0) \<and>
      exit_status (fst (main E (prog # ''backup'' # rest) st)) =
        (if getitem (fst (backup_deployment E kit
                            (if rest = [] then None else Some (hd rest)) st1)) ''success'' =
            Inr (PBool False)
         then 1 else 0) \<and>
      (cmd \<notin> set [''deploy'', ''status'', ''restart'', ''backup''] \<longrightarrow>
         main E (prog # cmd # rest) st =
           (SystemExit 1, print (''Unknown command: '' @ cmd) st1)) \<and>
      (length argv < 2 \<longrightarrow> main E argv st = (Returned, print usage st1)))"
proof -
  have crash: "DeployKit_init E st = (Inl e, st1) \<longrightarrow> exit_status (fst (main E argv st)) = 1"
    by (simp add: main_def)
  have "exit_status (fst (main E (prog # ''status'' # rest) st)) =
          (if json_dumps_error E (fst (get_status E kit st1)) = None then 0 else 1) \<and>
        exit_status (fst (main E (prog # ''restart'' # rest) st)) =
          (if truthy (dict_get (config kit) ''services'' (PList [])) \<and>
              isl (py_iter (dict_get (config kit) ''services'' (PList [])))
           then 1 else 0) \<and>
        exit_status (fst (main E (prog # ''deploy'' # rest) st)) =
          (if getitem (fst (execute_deployment E kit
                              (if rest = [] then ''deploy'' else hd rest) st1)) ''success'' =
              Inr (PBool False)
           then 1 else 0) \<and>
        exit_status (fst (main E (prog # ''backup'' # rest) st)) =
          (if getitem (fst (backup_deployment E kit
                              (if rest = [] then None else Some (hd rest)) st1)) ''success'' =
              Inr (PBool False)
           then 1 else 0) \<and>
        (cmd \<notin> set [''deploy'', ''status'', ''restart'', ''backup''] \<longrightarrow>
           main E (prog # cmd # rest) st =
             (SystemExit 1, print (''Unknown command: '' @ cmd) st1)) \<and>
        (length argv < 2 \<longrightarrow> main E argv st = (Returned, print usage st1))"
    if init: "DeployKit_init E st = (Inr kit, st1)"
  proof -
    have status: "exit_status (fst (main E (prog # ''status'' # rest) st)) =
                    (if json_dumps_error E (fst (get_status E kit st1)) = None then 0 else 1)"
      using main_status [OF init, of prog rest] by (simp split: option.splits)
    obtain r st2 where restarted: "restart_services E kit st1 = (r, st2)"
      by (cases "restart_services E kit st1")
    with restart_services_raises_iff [of E kit st1]
    have "isl r \<longleftrightarrow>
            truthy (dict_get (config kit) ''services'' (PList [])) \<and>
            isl (py_iter (dict_get (config kit) ''services'' (PList [])))"
      by simp
    with init restarted
    have restart: "exit_status (fst (main E (prog # ''restart'' # rest) st)) =
                     (if truthy (dict_get (config kit) ''services'' (PList [])) \<and>
                         isl (py_iter (dict_get (config kit) ''services'' (PList [])))
                      then 1 else 0)"
      by (cases r) (simp_all add: main_def)
    let ?name = "if rest = [] then ''deploy'' else hd rest"
    have "main E (prog # ''deploy'' # rest) st =
            exit_unless_success (fst (execute_deployment E kit ?name st1))
              (snd (execute_deployment E kit ?name st1))"
      using init by (cases rest) (simp_all add: main_def split: prod.splits)
    moreover have "is_ActionResult (fst (execute_deployment E kit ?name st1))"
      using deploy_result_cases [of E kit ?name st1] by (elim disjE exE) simp_all
    ultimately have deploy:
      "exit_status (fst (main E (prog # ''deploy'' # rest) st)) =
         (if getitem (fst (execute_deployment E kit ?name st1)) ''success'' = Inr (PBool False)
          then 1 else 0)"
      by (simp only: exit_unless_success_status)
    let ?path = "if rest = [] then None else Some (hd rest)"
    have "main E (prog # ''backup'' # rest) st =
            exit_unless_success (fst (backup_deployment E kit ?path st1))
              (snd (backup_deployment E kit ?path st1))"
      using init by (cases rest) (simp_all add: main_def split: prod.splits)
    moreover have "is_ActionResult (fst (backup_deployment E kit ?path st1))"
      using backup_result_cases [of E kit ?path st1] by (elim disjE exE) simp_all
    ultimately have backup:
      "exit_status (fst (main E (prog # ''backup'' # rest) st)) =
         (if getitem (fst (backup_deployment E kit ?path st1)) ''success'' = Inr (PBool False)
          then 1 else 0)"
      by (simp only: exit_unless_success_status)
    have unknown: "cmd \<notin> set [''deploy'', ''status'', ''restart'', ''backup''] \<longrightarrow>
                     main E (prog # cmd # rest) st =
                       (SystemExit 1, print (''Unknown command: '' @ cmd) st1)"
      using init by (simp add: main_def)
    have no_args: "length argv < 2 \<longrightarrow> main E argv st = (Returned, print usage st1)"
      using init by (simp add: main_def)
    from status restart deploy backup unknown no_args show ?thesis
      by (intro conjI)
  qed
  with crash show ?thesis
    by blast
qed

text \<open>
  Every subcommand once, at the concrete installation, and an installation whose
  configuration file makes the constructor raise.
\<close>

theorem cli_exit_status_witness:
  "DeployKit_init demo_env world0 = (Inr demo_kit, world0) \<and>
   json_dumps_error demo_env (fst (get_status demo_env demo_kit world0)) = None \<and>
   exit_status (fst (main demo_env [''main.py'', ''status''] world0)) = 0 \<and>
   dict_get (config demo_kit) ''services'' (PList []) = PList [PStr ''nginx'', PStr ''app''] \<and>
   exit_status (fst (main demo_env [''main.py'', ''restart''] world0)) = 0 \<and>
   exit_status (fst (main demo_env [''main.py'', ''deploy''] world0)) = 0 \<and>
   exit_status (fst (main demo_env [''main.py'', ''deploy'', ''migrate''] world0)) = 1 \<and>
   exit_status (fst (main demo_env [''main.py'', ''backup'', ''/tmp/x''] world0)) = 0 \<and>
   ''frobnicate'' \<notin> set [''deploy'', ''status'', ''restart'', ''backup''] \<and>
   main demo_env [''main.py'', ''frobnicate''] world0 =
     (SystemExit 1, print ''Unknown command: frobnicate'' world0) \<and>
   length [''main.py''] < 2 \<and>
   main demo_env [''main.py''] world0 = (Returned, print usage world0) \<and>
   DeployKit_init (env_with_config (PList [])) world0 =
     (Inl (PyException ''AttributeError''
            (quoted ''list'' @ '' object has no attribute '' @ quoted ''get'')), world0) \<and>
   exit_status (fst (main (env_with_config (PList [])) [''main.py'', ''status''] world0)) = 1"
proof -
  have init: "DeployKit_init demo_env world0 = (Inr demo_kit, world0)"
    by code_simp
  have crash: "DeployKit_init (env_with_config (PList [])) world0 =
      (Inl (PyException ''AttributeError''
             (quoted ''list'' @ '' object has no attribute '' @ quoted ''get'')), world0)"
    by (simp add: DeployKit_init_def load_config_def env_with_config_def demo_env_def
          config_path_def)
  have encodes: "json_dumps_error demo_env (fst (get_status demo_env demo_kit world0)) = None"
    by code_simp
  have services: "dict_get (config demo_kit) ''services'' (PList []) =
                    PList [PStr ''nginx'', PStr ''app'']"
    by (simp add: demo_kit_def demo_config_def dict_get_def)
  have deployed: "getitem (fst (execute_deployment demo_env demo_kit ''deploy'' world0))
                    ''success'' = Inr (PBool True)"
    by code_simp
  have migrated: "getitem (fst (execute_deployment demo_env demo_kit ''migrate'' world0))
                    ''success'' = Inr (PBool False)"
    by code_simp
  have copied: "getitem (fst (backup_deployment demo_env demo_kit (Some ''/tmp/x'') world0))
                  ''success'' = Inr (PBool True)"
    by code_simp
  have unknown: "''frobnicate'' \<notin> set [''deploy'', ''status'', ''restart'', ''backup'']"
    by simp
  note t0 = cli_exit_status
    [where E = "env_with_config (PList [])" and st = world0
       and argv = "[''main.py'', ''status'']", THEN conjunct1, rule_format, OF crash]
  note t1 = cli_exit_status
    [where E = demo_env and st = world0 and kit = demo_kit
       and prog = "''main.py''" and rest = "[]" and cmd = "''frobnicate''"
       and argv = "[''main.py'']", THEN conjunct2, rule_format, OF init]
  note t2 = cli_exit_status
    [where E = demo_env and st = world0 and kit = demo_kit
       and prog = "''main.py''" and rest = "[''migrate'']",
     THEN conjunct2, rule_format, OF init]
  note t3 = cli_exit_status
    [where E = demo_env and st = world0 and kit = demo_kit
       and prog = "''main.py''" and rest = "[''/tmp/x'']",
     THEN conjunct2, rule_format, OF init]
  from t0 t1 t2 t3 init crash encodes services deployed migrated copied unknown show ?thesis
    by simp
qed

end
